theory Spec2Isabelle
  imports Main
begin

section \<open>Teuchos standard conditions: data model\<close>

text \<open>
  A \<^verbatim>\<open>ParameterEntry\<close> is a shared cell of a parameter list; a condition holds a
  reference to it (an \<^verbatim>\<open>RCP\<close>), never a copy.  The reference is modelled by the
  identity of the entry, and the parameter list by the function that gives the value
  currently held by each entry.  The value is a \<^verbatim>\<open>Teuchos::any\<close>: it carries its type
  with it.  The type parameter \<open>'n\<close> stands for the numbers that the four supported
  number types hold; the conditions only compare such a number with zero and hand it
  to the function supplied by the user.
\<close>

type_synonym pid = nat

datatype numtype = TInt | TShort | TDouble | TFloat

datatype 'n any = AnyNum numtype 'n | AnyBool bool | AnyString string | AnyOther

type_synonym 'n params = "pid \<Rightarrow> 'n any"

datatype error =
    InvalidConditionException
  | MissingDependeesException
  | MissingDependentsException
  | MissingAttribute
  | TypeMismatch
  | EmptyConditionList

text \<open>
  The classes of \<^verbatim>\<open>Teuchos_StandardConditions.hpp\<close>.  \<^verbatim>\<open>OrCondition\<close>,
  \<^verbatim>\<open>AndCondition\<close> and \<^verbatim>\<open>EqualsCondition\<close> differ only in \<^verbatim>\<open>applyOperator\<close>
  (and in their type attribute), so the subclass is a field of the common parent
  \<^verbatim>\<open>BinaryLogicalCondition\<close>.  \<^verbatim>\<open>NumberCondition<T>\<close> keeps its template
  argument, the function pointer \<^verbatim>\<open>func_\<close> (\<open>None\<close> is the null pointer) and, as
  every \<^verbatim>\<open>ParameterCondition\<close>, the entry and \<^verbatim>\<open>whenParamEqualsValue_\<close>.
\<close>

datatype logop = OpOr | OpAnd | OpEquals

datatype 'n condition =
    BinaryLogicalCondition logop "'n condition list"
  | NotCondition "'n condition"
  | StringCondition pid "string list" bool
  | NumberCondition numtype pid "('n \<Rightarrow> 'n) option" bool
  | BoolCondition pid bool

abbreviation OrCondition :: "'n condition list \<Rightarrow> 'n condition" where
  "OrCondition \<equiv> BinaryLogicalCondition OpOr"

abbreviation AndCondition :: "'n condition list \<Rightarrow> 'n condition" where
  "AndCondition \<equiv> BinaryLogicalCondition OpAnd"

abbreviation EqualsCondition :: "'n condition list \<Rightarrow> 'n condition" where
  "EqualsCondition \<equiv> BinaryLogicalCondition OpEquals"

section \<open>Reading a parameter\<close>

text \<open>
  \<^verbatim>\<open>ParameterEntry::isType<T>\<close> and \<^verbatim>\<open>getValue<T>\<close> are declared in
  \<^verbatim>\<open>Teuchos_ParameterEntry.hpp\<close>, which is not among the sources.  The spec gives
  the entry "a dynamically-typed value" with "get-typed-value" and "is-type-of-T
  queries", says that \<^verbatim>\<open>NumberCondition<T>\<close> "requires the referenced parameter's
  value be of numeric type T" and calls reading a value that "cannot be interpreted
  as the expected type" an error.  So \<open>isType\<close> compares the type held with \<open>T\<close>,
  and \<open>getValue\<close> returns the value when the type held is \<open>T\<close> and fails otherwise.
\<close>

text \<open>
  Modelled from the spec: \<^verbatim>\<open>ParameterEntry::isType<T>\<close> for a number type \<open>T\<close>, the
  "is-type-of-T" query.
\<close>

fun isType :: "numtype \<Rightarrow> 'n any \<Rightarrow> bool" where
  "isType T (AnyNum t v) = (t = T)"
| "isType T (AnyBool b) = False"
| "isType T (AnyString s) = False"
| "isType T AnyOther = False"

text \<open>
  Modelled from the spec: \<^verbatim>\<open>getValue<T>\<close> for a number type \<open>T\<close>, the
  "get-typed-value" of the entry; it fails when the type held is not \<open>T\<close>.
\<close>

fun getValue :: "numtype \<Rightarrow> 'n any \<Rightarrow> error + 'n" where
  "getValue T (AnyNum t v) = (if t = T then Inr v else Inl TypeMismatch)"
| "getValue T (AnyBool b) = Inl TypeMismatch"
| "getValue T (AnyString s) = Inl TypeMismatch"
| "getValue T AnyOther = Inl TypeMismatch"

text \<open>
  Modelled from the spec: \<^verbatim>\<open>getValue<std::string>\<close>, the same access at type string.
\<close>

fun getValue_string :: "'n any \<Rightarrow> error + string" where
  "getValue_string (AnyString s) = Inr s"
| "getValue_string (AnyNum t v) = Inl TypeMismatch"
| "getValue_string (AnyBool b) = Inl TypeMismatch"
| "getValue_string AnyOther = Inl TypeMismatch"

text \<open>
  Modelled from the spec: \<^verbatim>\<open>getValue<bool>\<close>, the same access at type bool.
\<close>

fun getValue_bool :: "'n any \<Rightarrow> error + bool" where
  "getValue_bool (AnyBool b) = Inr b"
| "getValue_bool (AnyNum t v) = Inl TypeMismatch"
| "getValue_bool (AnyString s) = Inl TypeMismatch"
| "getValue_bool AnyOther = Inl TypeMismatch"

section \<open>Parameter conditions\<close>

text \<open>
  \<^verbatim>\<open>NumberCondition::runFunction\<close>: the function is applied when the pointer is
  not null, otherwise the argument is returned.
\<close>

definition runFunction :: "('n \<Rightarrow> 'n) option \<Rightarrow> 'n \<Rightarrow> 'n" where
  "runFunction func argument =
     (case func of Some f \<Rightarrow> f argument | None \<Rightarrow> argument)"

text \<open>
  \<^verbatim>\<open>NumberCondition::evaluateParameter\<close>:
  \<^verbatim>\<open>return (runFunction(getValue<T>(*getParameter())) > 0);\<close>
\<close>

definition NumberCondition_evaluateParameter ::
  "'n::{zero,ord} params \<Rightarrow> numtype \<Rightarrow> pid \<Rightarrow> ('n \<Rightarrow> 'n) option \<Rightarrow> error + bool" where
  "NumberCondition_evaluateParameter st T p func =
     (case getValue T (st p) of
        Inl e \<Rightarrow> Inl e
      | Inr v \<Rightarrow> Inr (0 < runFunction func v))"

text \<open>
  Modelled from the spec: the body of \<^verbatim>\<open>StringCondition::evaluateParameter\<close> is in
  \<^verbatim>\<open>Teuchos_StandardConditions.cpp\<close>, which is not among the sources.  The spec:
  "true iff the referenced parameter's current string value is a member of the
  condition's configured value list".
\<close>

definition StringCondition_evaluateParameter ::
  "'n params \<Rightarrow> pid \<Rightarrow> string list \<Rightarrow> error + bool" where
  "StringCondition_evaluateParameter st p vals =
     (case getValue_string (st p) of
        Inl e \<Rightarrow> Inl e
      | Inr s \<Rightarrow> Inr (s \<in> set vals))"

text \<open>
  Modelled from the spec: \<^verbatim>\<open>BoolCondition::evaluateParameter\<close> (body not among the
  sources) "returns the parameter's current boolean value directly".
\<close>

definition BoolCondition_evaluateParameter :: "'n params \<Rightarrow> pid \<Rightarrow> error + bool" where
  "BoolCondition_evaluateParameter st p = getValue_bool (st p)"

text \<open>
  \<^verbatim>\<open>ParameterCondition::isConditionTrue\<close>, as the header has it:
  \<^verbatim>\<open>if((whenParamEqualsValue_ && evaluateParameter()) ||
      (!whenParamEqualsValue_ && evaluateParameter())) return true; else return false;\<close>
  With \<^verbatim>\<open>&&\<close> and \<^verbatim>\<open>||\<close> evaluated lazily, \<^verbatim>\<open>evaluateParameter\<close> is called
  exactly once whatever the flag is, so an error it raises is the error of the whole
  call; the argument \<open>ev\<close> is the outcome of that one call.
\<close>

definition ParameterCondition_isConditionTrue :: "bool \<Rightarrow> error + bool \<Rightarrow> error + bool" where
  "ParameterCondition_isConditionTrue whenParamEqualsValue ev =
     (case ev of
        Inl e \<Rightarrow> Inl e
      | Inr b \<Rightarrow>
          Inr (if (whenParamEqualsValue \<and> b) \<or> (\<not> whenParamEqualsValue \<and> b)
               then True else False))"

section \<open>Logical conditions\<close>

text \<open>
  The header declares \<^verbatim>\<open>applyOperator\<close>, \<^verbatim>\<open>BinaryLogicalCondition::isConditionTrue\<close>
  and \<^verbatim>\<open>NotCondition::isConditionTrue\<close>; their bodies are in
  \<^verbatim>\<open>Teuchos_StandardConditions.cpp\<close>, which is not among the sources.  The spec:
  "applyOperator for Or = op1 || op2; And = op1 && op2; Equals = op1 == op2";
  "acc = children[0].isConditionTrue(); for each subsequent child c:
  acc = applyOperator(acc, c.isConditionTrue())"; and for the negation
  "!child.isConditionTrue()".  Both operands of \<^verbatim>\<open>applyOperator\<close> are arguments of
  a call, so every child is evaluated, in order, and the first error ends the loop.
  \<open>children[0]\<close> of an empty list is out of range: the model fails there.
\<close>

text \<open>
  Modelled from the spec: \<^verbatim>\<open>applyOperator\<close> of the three subclasses.
\<close>

fun applyOperator :: "logop \<Rightarrow> bool \<Rightarrow> bool \<Rightarrow> bool" where
  "applyOperator OpOr op1 op2 = (op1 \<or> op2)"
| "applyOperator OpAnd op1 op2 = (op1 \<and> op2)"
| "applyOperator OpEquals op1 op2 = (op1 = op2)"

text \<open>
  Modelled from the spec: the loop of \<^verbatim>\<open>BinaryLogicalCondition::isConditionTrue\<close> over
  the children after the first, "for each subsequent child c:
  acc = applyOperator(acc, c.isConditionTrue())"; \<open>rs\<close> are the outcomes of the
  children in order.
\<close>

fun reduceConditions :: "logop \<Rightarrow> bool \<Rightarrow> (error + bool) list \<Rightarrow> error + bool" where
  "reduceConditions k acc [] = Inr acc"
| "reduceConditions k acc (r # rs) =
     (case r of
        Inl e \<Rightarrow> Inl e
      | Inr v \<Rightarrow> reduceConditions k (applyOperator k acc v) rs)"

text \<open>
  Modelled from the spec: the cases of \<^verbatim>\<open>BinaryLogicalCondition\<close> and of
  \<^verbatim>\<open>NotCondition\<close> in the virtual \<^verbatim>\<open>Condition::isConditionTrue\<close>, as quoted
  above.  The three parameter conditions inherit
  \<^verbatim>\<open>ParameterCondition::isConditionTrue\<close> of the header, applied to the outcome of
  their own \<^verbatim>\<open>evaluateParameter\<close>.
\<close>

fun isConditionTrue :: "'n::{zero,ord} params \<Rightarrow> 'n condition \<Rightarrow> error + bool" where
  "isConditionTrue st (BinaryLogicalCondition k []) = Inl EmptyConditionList"
| "isConditionTrue st (BinaryLogicalCondition k (c # cs)) =
     (case isConditionTrue st c of
        Inl e \<Rightarrow> Inl e
      | Inr v \<Rightarrow> reduceConditions k v (map (isConditionTrue st) cs))"
| "isConditionTrue st (NotCondition c) =
     (case isConditionTrue st c of Inl e \<Rightarrow> Inl e | Inr v \<Rightarrow> Inr (\<not> v))"
| "isConditionTrue st (StringCondition p vals w) =
     ParameterCondition_isConditionTrue w (StringCondition_evaluateParameter st p vals)"
| "isConditionTrue st (NumberCondition T p func w) =
     ParameterCondition_isConditionTrue w (NumberCondition_evaluateParameter st T p func)"
| "isConditionTrue st (BoolCondition p w) =
     ParameterCondition_isConditionTrue w (BoolCondition_evaluateParameter st p)"

section \<open>Construction\<close>

text \<open>
  Modelled from the spec: the constructor of \<^verbatim>\<open>BinaryLogicalCondition\<close> (declared in
  the header, body not among the sources).  The spec: "Construction fails (raises a
  configuration error) if the child list is empty"; the error is the invalid-structure
  error, \<^verbatim>\<open>InvalidConditionException\<close>.
\<close>

definition BinaryLogicalCondition_ctor :: "logop \<Rightarrow> 'n condition list \<Rightarrow> error + 'n condition" where
  "BinaryLogicalCondition_ctor k conditions =
     (if length conditions = 0 then Inl InvalidConditionException
      else Inr (BinaryLogicalCondition k conditions))"

text \<open>
  \<^verbatim>\<open>NumberCondition::checkForNumberType\<close>: \<^verbatim>\<open>TEST_FOR_EXCEPTION\<close> throws
  \<^verbatim>\<open>InvalidConditionException\<close> when its first argument is true, that is when the
  entry is of none of the types int, short, double, float.  The template argument
  does not occur in the test.
\<close>

definition checkForNumberType :: "'n any \<Rightarrow> error + unit" where
  "checkForNumberType toCheck =
     (if \<not> isType TInt toCheck \<and> \<not> isType TShort toCheck \<and>
         \<not> isType TDouble toCheck \<and> \<not> isType TFloat toCheck
      then Inl InvalidConditionException else Inr ())"

text \<open>
  The constructor of \<^verbatim>\<open>NumberCondition<T>\<close>: it initialises the base class and
  \<^verbatim>\<open>func_\<close>, then calls \<^verbatim>\<open>checkForNumberType\<close> on the entry as it is at that
  moment (\<open>st\<close>).  The base-class constructor is not among the sources; the spec
  names no error of it.
\<close>

definition NumberCondition_ctor ::
  "'n params \<Rightarrow> numtype \<Rightarrow> pid \<Rightarrow> ('n \<Rightarrow> 'n) option \<Rightarrow> bool \<Rightarrow> error + 'n condition" where
  "NumberCondition_ctor st T parameter func whenParamEqualsValue =
     (case checkForNumberType (st parameter) of
        Inl e \<Rightarrow> Inl e
      | Inr u \<Rightarrow> Inr (NumberCondition T parameter func whenParamEqualsValue))"

text \<open>
  What is known of a condition tree whose construction succeeded, with the parameters
  as they were then (\<open>st\<close>): the constructor of every logical condition and of every
  \<^verbatim>\<open>NumberCondition\<close> in it returned.  The constructors of \<^verbatim>\<open>NotCondition\<close>,
  \<^verbatim>\<open>StringCondition\<close> and \<^verbatim>\<open>BoolCondition\<close> are only declared in the header and
  the spec does not say what they test, so nothing is assumed of them: whatever they
  test, a tree that they accepted satisfies this predicate, and what is proved of
  every tree satisfying it holds of every tree whose construction succeeded.
\<close>

fun constructed :: "'n params \<Rightarrow> 'n condition \<Rightarrow> bool" where
  "constructed st (BinaryLogicalCondition k cs) =
     (\<not> isl (BinaryLogicalCondition_ctor k cs) \<and> list_all (constructed st) cs)"
| "constructed st (NotCondition c) = constructed st c"
| "constructed st (StringCondition p vals w) = True"
| "constructed st (NumberCondition T p func w) =
     (\<not> isl (NumberCondition_ctor st T p func w))"
| "constructed st (BoolCondition p w) = True"

text \<open>
  Every parameter read by a leaf of the tree currently holds a value of the type
  that the leaf reads: a string for \<^verbatim>\<open>StringCondition\<close>, a bool for
  \<^verbatim>\<open>BoolCondition\<close>, a \<open>T\<close> for \<^verbatim>\<open>NumberCondition<T>\<close>.
\<close>

fun typesAgree :: "'n params \<Rightarrow> 'n condition \<Rightarrow> bool" where
  "typesAgree st (BinaryLogicalCondition k cs) = list_all (typesAgree st) cs"
| "typesAgree st (NotCondition c) = typesAgree st c"
| "typesAgree st (StringCondition p vals w) =
     (case st p of AnyString s \<Rightarrow> True | _ \<Rightarrow> False)"
| "typesAgree st (NumberCondition T p func w) = isType T (st p)"
| "typesAgree st (BoolCondition p w) = (case st p of AnyBool b \<Rightarrow> True | _ \<Rightarrow> False)"

section \<open>The parameters of a condition\<close>

text \<open>
  Modelled from the spec: \<^verbatim>\<open>getAllParameters\<close> of the three families (declared in
  the header, bodies not among the sources).  The spec: a "set of parameter
  identities: union over children, de-duplicated", and for a parameter condition the
  "singleton set containing its one referenced parameter identity".  The logical
  condition inserts the set of each child, in order, into the set it returns.
\<close>

fun getAllParameters :: "'n condition \<Rightarrow> pid set" where
  "getAllParameters (BinaryLogicalCondition k cs) =
     foldl (\<lambda>toReturn c. toReturn \<union> getAllParameters c) {} cs"
| "getAllParameters (NotCondition c) = getAllParameters c"
| "getAllParameters (StringCondition p vals w) = {p}"
| "getAllParameters (NumberCondition T p func w) = {p}"
| "getAllParameters (BoolCondition p w) = {p}"

text \<open>
  The parameters reachable through the structure of a condition, in the words of the
  spec's invariant: the parameter of a leaf, and transitively those of the children.
\<close>

inductive reachable :: "'n condition \<Rightarrow> pid \<Rightarrow> bool" where
  reachable_String: "reachable (StringCondition p vals w) p"
| reachable_Number: "reachable (NumberCondition T p func w) p"
| reachable_Bool: "reachable (BoolCondition p w) p"
| reachable_Not: "reachable c p \<Longrightarrow> reachable (NotCondition c) p"
| reachable_Binary:
    "c \<in> set cs \<Longrightarrow> reachable c p \<Longrightarrow> reachable (BinaryLogicalCondition k cs) p"

section \<open>The dependency XML converter\<close>

text \<open>
  Modelled from the spec: \<^verbatim>\<open>XMLObject\<close> is not among the sources.  It is the
  "structured document fragment" of the spec: a tag, attributes and an ordered list of
  child fragments.
\<close>

datatype XMLObject =
  XMLObject (getTag: string) (getAttributes: "(string \<times> string) list")
    (getChildren: "XMLObject list")

text \<open>
  Modelled from the spec: \<^verbatim>\<open>XMLObject::findFirstChild\<close> (not among the sources), the
  first child with the given tag; \<open>None\<close> is the \<^verbatim>\<open>null\<close> of the source.
\<close>

definition findFirstChild :: "XMLObject \<Rightarrow> string \<Rightarrow> XMLObject option" where
  "findFirstChild xmlObj tagName = find (\<lambda>child. getTag child = tagName) (getChildren xmlObj)"

text \<open>
  Modelled from the spec: \<^verbatim>\<open>XMLObject::getAttribute\<close> (not among the sources).  The
  spec has a missing-structure error "raised when a required child/attribute ... is
  absent from a document fragment".
\<close>

definition getAttribute :: "XMLObject \<Rightarrow> string \<Rightarrow> error + string" where
  "getAttribute xmlObj name =
     (case map_of (getAttributes xmlObj) name of
        None \<Rightarrow> Inl MissingAttribute
      | Some v \<Rightarrow> Inr v)"

text \<open>
  What \<^verbatim>\<open>fromXMLtoDependency\<close> uses and the sources do not define is taken as a
  parameter: the three names, the process-wide lookup
  \<^verbatim>\<open>ParameterEntry::getParameterEntry\<close> from an identifier to an entry, and the pure
  virtual \<^verbatim>\<open>convertXML\<close> of the subclass, which builds the dependency (of some type
  \<open>'d\<close>) or raises.  The two \<^verbatim>\<open>ParameterParentMap\<close>s are filled by
  \<^verbatim>\<open>insert\<close> of an entry, and are modelled as sets of entries.
\<close>

record ('e, 'd) DependencyXMLConverter =
  getDependeeTagName :: string
  getDependentTagName :: string
  getParameterIDAttributeName :: string
  getParameterEntry :: "string \<Rightarrow> 'e"
  convertXML :: "XMLObject \<Rightarrow> 'e set \<Rightarrow> 'e set \<Rightarrow> error + 'd"

text \<open>
  The loop of \<^verbatim>\<open>fromXMLtoDependency\<close> over the children, from the child at the head
  of the list on: a child with the dependee tag adds its entry to \<open>dependees\<close>,
  otherwise a child with the dependent tag adds its entry to \<open>dependents\<close>, any other
  child is skipped.
\<close>

fun insertChildren ::
  "('e, 'd) DependencyXMLConverter \<Rightarrow> XMLObject list \<Rightarrow> 'e set \<Rightarrow> 'e set
     \<Rightarrow> error + ('e set \<times> 'e set)" where
  "insertChildren cv [] dependees dependents = Inr (dependees, dependents)"
| "insertChildren cv (child # rest) dependees dependents =
     (if getTag child = getDependeeTagName cv then
        (case getAttribute child (getParameterIDAttributeName cv) of
           Inl e \<Rightarrow> Inl e
         | Inr dependeeID \<Rightarrow>
             insertChildren cv rest
               (insert (getParameterEntry cv dependeeID) dependees) dependents)
      else if getTag child = getDependentTagName cv then
        (case getAttribute child (getParameterIDAttributeName cv) of
           Inl e \<Rightarrow> Inl e
         | Inr dependentID \<Rightarrow>
             insertChildren cv rest
               dependees (insert (getParameterEntry cv dependentID) dependents))
      else insertChildren cv rest dependees dependents)"

text \<open>
  \<^verbatim>\<open>DependencyXMLConverter::fromXMLtoDependency\<close>: the two tests, in the order of
  the source, then the loop, then \<^verbatim>\<open>convertXML\<close>.
\<close>

definition fromXMLtoDependency ::
  "('e, 'd) DependencyXMLConverter \<Rightarrow> XMLObject \<Rightarrow> error + 'd" where
  "fromXMLtoDependency cv xmlObj =
     (if findFirstChild xmlObj (getDependeeTagName cv) = None
        then Inl MissingDependeesException
      else if findFirstChild xmlObj (getDependentTagName cv) = None
        then Inl MissingDependentsException
      else
        (case insertChildren cv (getChildren xmlObj) {} {} of
           Inl e \<Rightarrow> Inl e
         | Inr (dependees, dependents) \<Rightarrow> convertXML cv xmlObj dependees dependents))"

text \<open>
  The vocabulary of the statements about the converter: a fragment has a child with a
  given tag; the entry that a child names by its identifier attribute; the entries
  named by the children that bear a given tag; every child with one of the two tags
  carries the identifier attribute.
\<close>

definition hasChildTagged :: "XMLObject \<Rightarrow> string \<Rightarrow> bool" where
  "hasChildTagged xmlObj tagName =
     list_ex (\<lambda>child. getTag child = tagName) (getChildren xmlObj)"

definition entryOfChild :: "('e, 'd) DependencyXMLConverter \<Rightarrow> XMLObject \<Rightarrow> 'e" where
  "entryOfChild cv child =
     getParameterEntry cv
       (the (map_of (getAttributes child) (getParameterIDAttributeName cv)))"

definition entriesTagged ::
  "('e, 'd) DependencyXMLConverter \<Rightarrow> XMLObject list \<Rightarrow> string \<Rightarrow> 'e set" where
  "entriesTagged cv cs tagName =
     set (map (entryOfChild cv) (filter (\<lambda>child. getTag child = tagName) cs))"

definition carriesID :: "('e, 'd) DependencyXMLConverter \<Rightarrow> XMLObject \<Rightarrow> bool" where
  "carriesID cv xmlObj =
     list_all
       (\<lambda>child. (getTag child = getDependeeTagName cv \<or> getTag child = getDependentTagName cv)
            \<longrightarrow> map_of (getAttributes child) (getParameterIDAttributeName cv) \<noteq> None)
       (getChildren xmlObj)"

section \<open>Example inputs\<close>

text \<open>
  Parameter lists for the examples, with integers for the numbers: every entry a
  bool; every entry a double; and a list with a bool, an int and a string.
\<close>

definition boolParams :: "bool \<Rightarrow> int params" where
  "boolParams b p = AnyBool b"

definition doubleParams :: "int \<Rightarrow> int params" where
  "doubleParams v p = AnyNum TDouble v"

definition mixedParams :: "int params" where
  "mixedParams p =
     (if p = 0 then AnyBool True else if p = 1 then AnyNum TInt 4 else AnyString ''on'')"





text \<open>
  A converter whose lookup is the identity on identifiers and whose \<^verbatim>\<open>convertXML\<close>
  returns the two sets it was given, and a fragment with one dependee and two
  dependents.
\<close>

definition exampleConverter :: "(string, string set \<times> string set) DependencyXMLConverter" where
  "exampleConverter =
     \<lparr> getDependeeTagName = ''Dependee'', getDependentTagName = ''Dependent'',
       getParameterIDAttributeName = ''parameterID'',
       getParameterEntry = (\<lambda>dependeeID. dependeeID),
       convertXML = (\<lambda>xmlObj dependees dependents. Inr (dependees, dependents)) \<rparr>"

definition exampleDependency :: XMLObject where
  "exampleDependency =
     XMLObject ''Dependency'' [(''type'', ''visualDependency'')]
       [XMLObject ''Dependee'' [(''parameterID'', ''1'')] [],
        XMLObject ''Dependent'' [(''parameterID'', ''2'')] [],
        XMLObject ''Dependent'' [(''parameterID'', ''3'')] []]"

section \<open>Parameter conditions: polarity and the number test\<close>

lemma ParameterCondition_isConditionTrue_outcome:
  "ParameterCondition_isConditionTrue w ev = ev"
  by (cases ev) (auto simp: ParameterCondition_isConditionTrue_def)

text \<open>
  Claim C1: a parameter condition is true exactly when the outcome of
  \<^verbatim>\<open>evaluateParameter\<close> equals \<^verbatim>\<open>whenParamEqualsValue\<close>; with the flag false, it is
  true exactly when \<^verbatim>\<open>evaluateParameter\<close> is false.  This is what the header's
  comment on the constructor promises, and the code does not do it.  With the flag
  false and a bool parameter holding false, \<^verbatim>\<open>evaluateParameter\<close> is false and the
  condition is false, where the claim has true (\<open>False = False\<close>); with the parameter
  holding true the condition is true, where the claim has false (\<open>True = False\<close>).
\<close>

theorem isConditionTrue_ignores_false_polarity:
  "BoolCondition_evaluateParameter (boolParams False) 0 = Inr False
   \<and> isConditionTrue (boolParams False) (BoolCondition 0 False) = Inr False
   \<and> isConditionTrue (boolParams False) (BoolCondition 0 False) \<noteq> Inr (False = False)
   \<and> BoolCondition_evaluateParameter (boolParams True) 0 = Inr True
   \<and> isConditionTrue (boolParams True) (BoolCondition 0 False) = Inr True
   \<and> isConditionTrue (boolParams True) (BoolCondition 0 False) \<noteq> Inr (True = False)"
  by (simp add: BoolCondition_evaluateParameter_def boolParams_def
      ParameterCondition_isConditionTrue_def)

text \<open>
  Claim C9: for every parameter condition and every state of the parameters,
  \<^verbatim>\<open>isConditionTrue\<close> returns exactly the outcome of \<^verbatim>\<open>evaluateParameter\<close>, an
  error included, so the result is the same for both values of the flag.
\<close>

theorem isConditionTrue_is_evaluateParameter:
  "ParameterCondition_isConditionTrue w ev = ev
   \<and> isConditionTrue st (StringCondition p vals w) = StringCondition_evaluateParameter st p vals
   \<and> isConditionTrue st (NumberCondition T p func w)
        = NumberCondition_evaluateParameter st T p func
   \<and> isConditionTrue st (BoolCondition p w) = BoolCondition_evaluateParameter st p
   \<and> isConditionTrue st (StringCondition p vals True)
        = isConditionTrue st (StringCondition p vals False)
   \<and> isConditionTrue st (NumberCondition T p func True)
        = isConditionTrue st (NumberCondition T p func False)
   \<and> isConditionTrue st (BoolCondition p True) = isConditionTrue st (BoolCondition p False)"
  by (simp add: ParameterCondition_isConditionTrue_outcome)

theorem isConditionTrue_is_evaluateParameter_witness:
  "isConditionTrue mixedParams (StringCondition 2 [''on'', ''off''] False) = Inr True
   \<and> isConditionTrue mixedParams (StringCondition 2 [''on'', ''off''] True) = Inr True
   \<and> isConditionTrue mixedParams (NumberCondition TInt 1 None False) = Inr True
   \<and> isConditionTrue mixedParams (BoolCondition 1 False) = Inl TypeMismatch"
proof -
  have "StringCondition_evaluateParameter mixedParams 2 [''on'', ''off''] = Inr True"
    "NumberCondition_evaluateParameter mixedParams TInt 1 None = Inr True"
    "BoolCondition_evaluateParameter mixedParams 1 = Inl TypeMismatch"
    by (simp_all add: StringCondition_evaluateParameter_def NumberCondition_evaluateParameter_def
        BoolCondition_evaluateParameter_def runFunction_def mixedParams_def)
  then show ?thesis
    using isConditionTrue_is_evaluateParameter [of False _ mixedParams 2 "[''on'', ''off'']" TInt None]
      isConditionTrue_is_evaluateParameter [of True _ mixedParams 2 "[''on'', ''off'']" TInt None]
      isConditionTrue_is_evaluateParameter [of False _ mixedParams 1 "[]" TInt None]
    by simp
qed





section \<open>Construction\<close>







text \<open>
  Claim C10: the construction of a \<^verbatim>\<open>NumberCondition<T>\<close> succeeds whenever the
  parameter is of one of the types int, short, double, float, also when that type is
  not \<open>T\<close>; whether it succeeds does not depend on \<open>T\<close>.
\<close>

theorem NumberCondition_ctor_any_number_type:
  "(st p = AnyNum t v \<longrightarrow>
      NumberCondition_ctor st T p func w = Inr (NumberCondition T p func w))
   \<and> isl (NumberCondition_ctor st T p func w) = isl (NumberCondition_ctor st T' p func w)"
  by (cases t) (simp_all add: NumberCondition_ctor_def checkForNumberType_def)

theorem NumberCondition_ctor_any_number_type_witness:
  "doubleParams 1 0 = AnyNum TDouble 1
   \<and> NumberCondition_ctor (doubleParams 1) TInt 0 None True
        = Inr (NumberCondition TInt 0 None True)"
proof -
  have a: "doubleParams 1 0 = AnyNum TDouble 1"
    by (simp add: doubleParams_def)
  from NumberCondition_ctor_any_number_type
         [where st = "doubleParams 1" and p = 0 and t = TDouble and v = 1 and T = TInt
            and func = None and w = True] a
  show ?thesis by simp
qed

section \<open>Logical conditions\<close>

lemma reduceConditions_values:
  "reduceConditions k acc (map Inr vs) = Inr (foldl (applyOperator k) acc vs)"
  by (induction vs arbitrary: acc) simp_all

lemma foldl_applyOperator_Or:
  "foldl (applyOperator OpOr) acc vs = (acc \<or> (\<exists>v\<in>set vs. v))"
  by (induction vs arbitrary: acc) auto

lemma foldl_applyOperator_And:
  "foldl (applyOperator OpAnd) acc vs = (acc \<and> (\<forall>v\<in>set vs. v))"
  by (induction vs arbitrary: acc) auto

lemma isConditionTrue_single:
  "isConditionTrue st (BinaryLogicalCondition k [c]) = isConditionTrue st c"
  by (simp split: sum.split)

lemma isConditionTrue_values:
  assumes "map (isConditionTrue st) cs = map Inr vs" and "cs \<noteq> []"
  shows "isConditionTrue st (BinaryLogicalCondition k cs)
           = Inr (foldl (applyOperator k) (hd vs) (tl vs))"
proof -
  from assms obtain c cs' v vs' where cs: "cs = c # cs'" and vs: "vs = v # vs'"
    by (cases cs; cases vs) auto
  with assms have "isConditionTrue st c = Inr v" "map (isConditionTrue st) cs' = map Inr vs'"
    by auto
  then show ?thesis
    by (simp add: cs vs reduceConditions_values)
qed

text \<open>
  Claim C2: for a logical condition with a non-empty list of children whose values
  are \<open>vs\<close>, in order, \<^verbatim>\<open>isConditionTrue\<close> is the fold of \<^verbatim>\<open>applyOperator\<close> from
  the left over \<open>vs\<close>, starting with the first value.  So an \<^verbatim>\<open>OrCondition\<close> is true
  exactly when some child is true, an \<^verbatim>\<open>AndCondition\<close> exactly when all children
  are, an \<^verbatim>\<open>EqualsCondition\<close> over three children with values \<open>v1, v2, v3\<close> is
  \<open>(v1 = v2) = v3\<close>, and with exactly one child the result is that of the child,
  whatever the operator.
\<close>

theorem BinaryLogicalCondition_isConditionTrue_fold:
  assumes "map (isConditionTrue st) cs = map Inr vs" and "cs \<noteq> []"
  shows "isConditionTrue st (BinaryLogicalCondition k cs)
           = Inr (foldl (applyOperator k) (hd vs) (tl vs))
       \<and> isConditionTrue st (OrCondition cs) = Inr (\<exists>v\<in>set vs. v)
       \<and> isConditionTrue st (AndCondition cs) = Inr (\<forall>v\<in>set vs. v)
       \<and> (cs = [c1, c2, c3] \<and> vs = [v1, v2, v3] \<longrightarrow>
            isConditionTrue st (EqualsCondition cs) = Inr ((v1 = v2) = v3))
       \<and> isConditionTrue st (BinaryLogicalCondition k [c]) = isConditionTrue st c"
proof -
  from assms obtain v vs' where vs: "vs = v # vs'"
    by (cases cs; cases vs) auto
  have "isConditionTrue st (OrCondition cs) = Inr (\<exists>v\<in>set vs. v)"
    using isConditionTrue_values [OF assms, of OpOr]
    by (simp add: vs foldl_applyOperator_Or)
  moreover have "isConditionTrue st (AndCondition cs) = Inr (\<forall>v\<in>set vs. v)"
    using isConditionTrue_values [OF assms, of OpAnd]
    by (simp add: vs foldl_applyOperator_And)
  moreover have "cs = [c1, c2, c3] \<and> vs = [v1, v2, v3] \<longrightarrow>
      isConditionTrue st (EqualsCondition cs) = Inr ((v1 = v2) = v3)"
    using isConditionTrue_values [OF assms, of OpEquals] by auto
  ultimately show ?thesis
    using isConditionTrue_values [OF assms, of k] isConditionTrue_single [of st k c]
    by simp
qed

theorem BinaryLogicalCondition_isConditionTrue_fold_witness:
  "map (isConditionTrue mixedParams)
       [BoolCondition 0 True, NumberCondition TInt 1 None True, StringCondition 2 [''off''] True]
     = map Inr [True, True, False]
   \<and> [BoolCondition 0 True, NumberCondition TInt 1 None True, StringCondition 2 [''off''] True]
       \<noteq> ([] :: int condition list)
   \<and> isConditionTrue mixedParams
       (OrCondition [BoolCondition 0 True, NumberCondition TInt 1 None True,
                     StringCondition 2 [''off''] True]) = Inr True
   \<and> isConditionTrue mixedParams
       (AndCondition [BoolCondition 0 True, NumberCondition TInt 1 None True,
                      StringCondition 2 [''off''] True]) = Inr False
   \<and> isConditionTrue mixedParams
       (EqualsCondition [BoolCondition 0 True, NumberCondition TInt 1 None True,
                         StringCondition 2 [''off''] True]) = Inr False"
proof -
  have a: "map (isConditionTrue mixedParams)
       [BoolCondition 0 True, NumberCondition TInt 1 None True, StringCondition 2 [''off''] True]
     = map Inr [True, True, False]"
    by (simp add: mixedParams_def ParameterCondition_isConditionTrue_def
        BoolCondition_evaluateParameter_def NumberCondition_evaluateParameter_def
        StringCondition_evaluateParameter_def runFunction_def)
  have b: "[BoolCondition 0 True, NumberCondition TInt 1 None True,
            StringCondition 2 [''off''] True] \<noteq> ([] :: int condition list)"
    by simp
  from BinaryLogicalCondition_isConditionTrue_fold
         [OF a b, of _ "BoolCondition 0 True" "NumberCondition TInt 1 None True"
            "StringCondition 2 [''off''] True" True True False] a b
  show ?thesis by simp
qed

section \<open>Evaluation after construction\<close>

lemma reduceConditions_returns:
  "(\<exists>b. reduceConditions k acc rs = Inr b) = (\<forall>r\<in>set rs. \<not> isl r)"
  by (induction rs arbitrary: acc) (auto split: sum.splits)

lemma returns_iff_not_isl: "(\<exists>b. r = Inr b) = (\<not> isl r)"
  by (cases r) auto

lemma StringCondition_evaluateParameter_returns:
  "(\<not> isl (StringCondition_evaluateParameter st p vals))
     = (case st p of AnyString s \<Rightarrow> True | _ \<Rightarrow> False)"
  by (cases "st p") (simp_all add: StringCondition_evaluateParameter_def)

lemma BoolCondition_evaluateParameter_returns:
  "(\<not> isl (BoolCondition_evaluateParameter st p))
     = (case st p of AnyBool s \<Rightarrow> True | _ \<Rightarrow> False)"
  by (cases "st p") (simp_all add: BoolCondition_evaluateParameter_def)

lemma NumberCondition_evaluateParameter_returns:
  "(\<not> isl (NumberCondition_evaluateParameter st T p func)) = isType T (st p)"
  by (cases "st p") (simp_all add: NumberCondition_evaluateParameter_def)

lemma isConditionTrue_returns:
  "constructed st0 c \<Longrightarrow> (\<not> isl (isConditionTrue st c)) = typesAgree st c"
proof (induction c)
  case (BinaryLogicalCondition k cs)
  then obtain c cs' where cs: "cs = c # cs'"
    by (cases cs) (auto simp: BinaryLogicalCondition_ctor_def)
  have ih: "\<And>x. x \<in> set cs \<Longrightarrow> (\<not> isl (isConditionTrue st x)) = typesAgree st x"
    using BinaryLogicalCondition by (auto simp: list_all_iff)
  show ?case
  proof (cases "isConditionTrue st c")
    case (Inl e)
    with ih [of c] show ?thesis by (simp add: cs)
  next
    case (Inr v)
    have "(\<not> isl (reduceConditions k v (map (isConditionTrue st) cs')))
            = (\<forall>r\<in>set (map (isConditionTrue st) cs'). \<not> isl r)"
      using reduceConditions_returns [of k v "map (isConditionTrue st) cs'"]
      by (simp add: returns_iff_not_isl)
    also have "\<dots> = list_all (typesAgree st) cs'"
      using ih by (auto simp: cs list_all_iff)
    finally show ?thesis
      using Inr ih [of c] by (simp add: cs)
  qed
next
  case (NotCondition c)
  then show ?case by (cases "isConditionTrue st c") auto
next
  case (StringCondition p vals w)
  show ?case
    by (simp add: ParameterCondition_isConditionTrue_outcome
        StringCondition_evaluateParameter_returns)
next
  case (NumberCondition T p func w)
  show ?case
    by (simp add: ParameterCondition_isConditionTrue_outcome
        NumberCondition_evaluateParameter_returns)
next
  case (BoolCondition p w)
  show ?case
    by (simp add: ParameterCondition_isConditionTrue_outcome
        BoolCondition_evaluateParameter_returns)
qed

text \<open>
  Claim C3, as amended: for every condition whose construction succeeded (with the
  parameters as they were then, \<open>st0\<close>) and every current state \<open>st\<close> of the
  parameters in which every parameter read by a leaf holds a value of the type that
  the leaf reads (a string for \<^verbatim>\<open>StringCondition\<close>, a bool for
  \<^verbatim>\<open>BoolCondition\<close>, a \<open>T\<close> for \<^verbatim>\<open>NumberCondition<T>\<close>),
  \<^verbatim>\<open>isConditionTrue\<close> returns a boolean and raises no error.
\<close>

theorem isConditionTrue_returns_when_typesAgree:
  assumes "constructed st0 c" and "typesAgree st c"
  shows "\<exists>b. isConditionTrue st c = Inr b"
  using isConditionTrue_returns [OF assms(1), of st] assms(2)
  by (simp add: returns_iff_not_isl)

theorem isConditionTrue_returns_when_typesAgree_witness:
  "constructed mixedParams
     (AndCondition [NumberCondition TInt 1 None True, BoolCondition 0 False])
   \<and> typesAgree mixedParams
       (AndCondition [NumberCondition TInt 1 None True, BoolCondition 0 False])
   \<and> (\<exists>b. isConditionTrue mixedParams
             (AndCondition [NumberCondition TInt 1 None True, BoolCondition 0 False]) = Inr b)"
proof -
  have a: "constructed mixedParams
             (AndCondition [NumberCondition TInt 1 None True, BoolCondition 0 False])"
    by (simp add: mixedParams_def BinaryLogicalCondition_ctor_def NumberCondition_ctor_def
        checkForNumberType_def)
  have b: "typesAgree mixedParams
             (AndCondition [NumberCondition TInt 1 None True, BoolCondition 0 False])"
    by (simp add: mixedParams_def)
  from isConditionTrue_returns_when_typesAgree [OF a b] a b
  show ?thesis by simp
qed

text \<open>
  Claim C3 as it is written (no error after a construction that succeeded, whatever
  number type the parameter holds) fails: a \<^verbatim>\<open>NumberCondition<int>\<close> on a parameter
  that holds a double is constructed without error, and its evaluation, in the same
  state, raises the type mismatch of \<^verbatim>\<open>getValue<int>\<close>.
\<close>

theorem isConditionTrue_fails_on_other_number_type:
  "constructed (doubleParams 1) (NumberCondition TInt 0 None True)
   \<and> isConditionTrue (doubleParams 1) (NumberCondition TInt 0 None True) = Inl TypeMismatch"
  by (simp add: doubleParams_def NumberCondition_ctor_def checkForNumberType_def
      NumberCondition_evaluateParameter_def ParameterCondition_isConditionTrue_def)

section \<open>The parameters of a condition\<close>

lemma foldl_union:
  "foldl (\<lambda>toReturn c. toReturn \<union> f c) A cs = A \<union> (\<Union>c\<in>set cs. f c)"
  by (induction cs arbitrary: A) auto

lemma getAllParameters_iff_reachable: "(p \<in> getAllParameters c) = reachable c p"
proof
  show "p \<in> getAllParameters c \<Longrightarrow> reachable c p"
  proof (induction c)
    case (BinaryLogicalCondition k cs)
    then show ?case
      by (auto simp: foldl_union intro: reachable.intros)
  qed (auto intro: reachable.intros)
next
  show "reachable c p \<Longrightarrow> p \<in> getAllParameters c"
    by (induction rule: reachable.induct) (auto simp: foldl_union)
qed

text \<open>
  Claim C8: \<^verbatim>\<open>getAllParameters\<close> returns exactly the set of the parameters reachable
  through the structure of the condition, transitively through all children.  On
  \<open>And(Or(P1, P2), Not(P3))\<close> it is \<open>{P1, P2, P3}\<close>, also when \<open>P1\<close> occurs once
  more under another child (then the set still has three elements), and on a
  parameter condition it is the singleton of its parameter.
\<close>

theorem getAllParameters_reachable_set:
  "getAllParameters c = {p. reachable c p}
   \<and> getAllParameters
       (AndCondition [OrCondition [BoolCondition p1 w1, BoolCondition p2 w2],
                      NotCondition (BoolCondition p3 w3)]) = {p1, p2, p3}
   \<and> getAllParameters
       (AndCondition [OrCondition [BoolCondition p1 w1, BoolCondition p2 w2],
                      NotCondition (BoolCondition p3 w3), BoolCondition p1 w4]) = {p1, p2, p3}
   \<and> card (getAllParameters
       (AndCondition [OrCondition [BoolCondition 1 w1, BoolCondition 2 w2],
                      NotCondition (BoolCondition 3 w3), BoolCondition 1 w4])) = 3
   \<and> getAllParameters (StringCondition p vals w) = {p}
   \<and> getAllParameters (NumberCondition T p func w) = {p}
   \<and> getAllParameters (BoolCondition p w) = {p}"
proof -
  have "getAllParameters c = {p. reachable c p}"
    using getAllParameters_iff_reachable [of _ c] by blast
  then show ?thesis by (auto simp: card_insert_if)
qed

theorem getAllParameters_reachable_set_witness:
  "getAllParameters
     (AndCondition [OrCondition [StringCondition 1 [''on''] True, NumberCondition TInt 2 None True],
                    NotCondition (BoolCondition 3 True :: int condition)]) = {1, 2, 3}
   \<and> reachable
       (AndCondition [OrCondition [StringCondition 1 [''on''] True, NumberCondition TInt 2 None True],
                      NotCondition (BoolCondition 3 True :: int condition)]) 3"
proof -
  have a: "getAllParameters
     (AndCondition [OrCondition [StringCondition 1 [''on''] True, NumberCondition TInt 2 None True],
                    NotCondition (BoolCondition 3 True :: int condition)]) = {1, 2, 3}"
    by auto
  from getAllParameters_reachable_set
         [THEN conjunct1,
          of "AndCondition [OrCondition [StringCondition 1 [''on''] True,
                                         NumberCondition TInt 2 None True],
                            NotCondition (BoolCondition 3 True :: int condition)]"] a
  show ?thesis by auto
qed

section \<open>The dependency XML converter\<close>

lemma findFirstChild_None:
  "(findFirstChild xmlObj tagName = None) = (\<not> hasChildTagged xmlObj tagName)"
  by (auto simp: findFirstChild_def hasChildTagged_def find_None_iff list_ex_iff)

lemma insertChildren_errors:
  "insertChildren cv cs D E = Inl e \<Longrightarrow> e = MissingAttribute"
  by (induction cs arbitrary: D E)
     (auto simp: getAttribute_def split: if_splits sum.splits option.splits)

lemma insertChildren_sets:
  assumes "getDependeeTagName cv \<noteq> getDependentTagName cv"
    and "\<forall>child\<in>set cs.
           (getTag child = getDependeeTagName cv \<or> getTag child = getDependentTagName cv)
             \<longrightarrow> map_of (getAttributes child) (getParameterIDAttributeName cv) \<noteq> None"
  shows "insertChildren cv cs D E =
     Inr (D \<union> entriesTagged cv cs (getDependeeTagName cv),
          E \<union> entriesTagged cv cs (getDependentTagName cv))"
  using assms
proof (induction cs arbitrary: D E)
  case Nil
  then show ?case by (simp add: entriesTagged_def)
next
  case (Cons child rest)
  have ih: "\<And>D E. insertChildren cv rest D E =
     Inr (D \<union> entriesTagged cv rest (getDependeeTagName cv),
          E \<union> entriesTagged cv rest (getDependentTagName cv))"
    using Cons by simp
  consider (dependee) "getTag child = getDependeeTagName cv"
    | (dependent) "getTag child \<noteq> getDependeeTagName cv" "getTag child = getDependentTagName cv"
    | (other) "getTag child \<noteq> getDependeeTagName cv" "getTag child \<noteq> getDependentTagName cv"
    by blast
  then show ?case
  proof cases
    case dependee
    with Cons.prems obtain i
      where "map_of (getAttributes child) (getParameterIDAttributeName cv) = Some i"
      by auto
    with dependee Cons.prems(1) show ?thesis
      by (simp add: ih getAttribute_def entriesTagged_def entryOfChild_def)
  next
    case dependent
    with Cons.prems obtain i
      where "map_of (getAttributes child) (getParameterIDAttributeName cv) = Some i"
      by auto
    with dependent show ?thesis
      by (simp add: ih getAttribute_def entriesTagged_def entryOfChild_def)
  next
    case other
    then show ?thesis by (simp add: ih entriesTagged_def)
  qed
qed

text \<open>
  Claim C6, as amended: a fragment with no child bearing the dependee tag raises
  \<^verbatim>\<open>MissingDependeesException\<close>; a fragment with such a child and no child bearing
  the dependent tag raises \<^verbatim>\<open>MissingDependentsException\<close>; when both kinds of
  children are present the function raises neither of its own (it fails on a missing
  identifier attribute or returns what \<^verbatim>\<open>convertXML\<close> returns), and, the two tag
  names being different and every such child carrying the identifier attribute,
  \<^verbatim>\<open>convertXML\<close> receives as dependees exactly the entries named by the children
  with the dependee tag and as dependents exactly those named by the children with
  the dependent tag.
\<close>

theorem fromXMLtoDependency_errors_and_sets:
  "(\<not> hasChildTagged xmlObj (getDependeeTagName cv) \<longrightarrow>
      fromXMLtoDependency cv xmlObj = Inl MissingDependeesException)
   \<and> (hasChildTagged xmlObj (getDependeeTagName cv) \<and>
      \<not> hasChildTagged xmlObj (getDependentTagName cv) \<longrightarrow>
      fromXMLtoDependency cv xmlObj = Inl MissingDependentsException)
   \<and> (hasChildTagged xmlObj (getDependeeTagName cv) \<and>
      hasChildTagged xmlObj (getDependentTagName cv) \<longrightarrow>
      fromXMLtoDependency cv xmlObj = Inl MissingAttribute \<or>
      (\<exists>dependees dependents.
         fromXMLtoDependency cv xmlObj = convertXML cv xmlObj dependees dependents))
   \<and> (hasChildTagged xmlObj (getDependeeTagName cv) \<and>
      hasChildTagged xmlObj (getDependentTagName cv) \<and>
      getDependeeTagName cv \<noteq> getDependentTagName cv \<and> carriesID cv xmlObj \<longrightarrow>
      fromXMLtoDependency cv xmlObj =
        convertXML cv xmlObj
          (entriesTagged cv (getChildren xmlObj) (getDependeeTagName cv))
          (entriesTagged cv (getChildren xmlObj) (getDependentTagName cv)))"
proof -
  have sets: "getDependeeTagName cv \<noteq> getDependentTagName cv \<and> carriesID cv xmlObj \<Longrightarrow>
      insertChildren cv (getChildren xmlObj) {} {} =
        Inr (entriesTagged cv (getChildren xmlObj) (getDependeeTagName cv),
             entriesTagged cv (getChildren xmlObj) (getDependentTagName cv))"
    using insertChildren_sets [of cv "getChildren xmlObj" "{}" "{}"]
    by (simp add: carriesID_def list_all_iff)
  have errs: "(case insertChildren cv (getChildren xmlObj) {} {} of
                   Inl e \<Rightarrow> Inl e
                 | Inr (dependees, dependents) \<Rightarrow> convertXML cv xmlObj dependees dependents)
                = Inl MissingAttribute \<or>
              (\<exists>dependees dependents.
                 (case insertChildren cv (getChildren xmlObj) {} {} of
                    Inl e \<Rightarrow> Inl e
                  | Inr (dependees, dependents) \<Rightarrow> convertXML cv xmlObj dependees dependents)
                 = convertXML cv xmlObj dependees dependents)"
    using insertChildren_errors [of cv "getChildren xmlObj" "{}" "{}"]
    by (cases "insertChildren cv (getChildren xmlObj) {} {}") auto
  show ?thesis
    using sets errs by (simp add: fromXMLtoDependency_def findFirstChild_None)
qed

theorem fromXMLtoDependency_errors_and_sets_witness:
  "hasChildTagged exampleDependency (getDependeeTagName exampleConverter)
   \<and> hasChildTagged exampleDependency (getDependentTagName exampleConverter)
   \<and> getDependeeTagName exampleConverter \<noteq> getDependentTagName exampleConverter
   \<and> carriesID exampleConverter exampleDependency
   \<and> fromXMLtoDependency exampleConverter exampleDependency = Inr ({''1''}, {''2'', ''3''})
   \<and> \<not> hasChildTagged (XMLObject ''Dependency'' [] []) (getDependeeTagName exampleConverter)
   \<and> fromXMLtoDependency exampleConverter (XMLObject ''Dependency'' [] [])
        = Inl MissingDependeesException
   \<and> hasChildTagged (XMLObject ''Dependency'' [] [XMLObject ''Dependee'' [] []])
        (getDependeeTagName exampleConverter)
   \<and> \<not> hasChildTagged (XMLObject ''Dependency'' [] [XMLObject ''Dependee'' [] []])
        (getDependentTagName exampleConverter)
   \<and> fromXMLtoDependency exampleConverter
        (XMLObject ''Dependency'' [] [XMLObject ''Dependee'' [] []])
        = Inl MissingDependentsException"
proof -
  have a: "hasChildTagged exampleDependency (getDependeeTagName exampleConverter)"
    "hasChildTagged exampleDependency (getDependentTagName exampleConverter)"
    "getDependeeTagName exampleConverter \<noteq> getDependentTagName exampleConverter"
    "carriesID exampleConverter exampleDependency"
    by (simp_all add: hasChildTagged_def exampleDependency_def exampleConverter_def carriesID_def)
  have b: "entriesTagged exampleConverter (getChildren exampleDependency)
             (getDependeeTagName exampleConverter) = {''1''}"
    "entriesTagged exampleConverter (getChildren exampleDependency)
             (getDependentTagName exampleConverter) = {''2'', ''3''}"
    by (simp_all add: entriesTagged_def entryOfChild_def exampleDependency_def
        exampleConverter_def)
  have c: "\<not> hasChildTagged (XMLObject ''Dependency'' [] []) (getDependeeTagName exampleConverter)"
    "hasChildTagged (XMLObject ''Dependency'' [] [XMLObject ''Dependee'' [] []])
        (getDependeeTagName exampleConverter)"
    "\<not> hasChildTagged (XMLObject ''Dependency'' [] [XMLObject ''Dependee'' [] []])
        (getDependentTagName exampleConverter)"
    by (simp_all add: hasChildTagged_def exampleConverter_def)
  have d: "convertXML exampleConverter x D E = Inr (D, E)" for x D E
    by (simp add: exampleConverter_def)
  have "fromXMLtoDependency exampleConverter exampleDependency = Inr ({''1''}, {''2'', ''3''})"
    using fromXMLtoDependency_errors_and_sets [of exampleDependency exampleConverter] a b d
    by simp
  moreover have "fromXMLtoDependency exampleConverter (XMLObject ''Dependency'' [] [])
                   = Inl MissingDependeesException"
    using fromXMLtoDependency_errors_and_sets [of "XMLObject ''Dependency'' [] []" exampleConverter]
      c by simp
  moreover have "fromXMLtoDependency exampleConverter
                   (XMLObject ''Dependency'' [] [XMLObject ''Dependee'' [] []])
                   = Inl MissingDependentsException"
    using fromXMLtoDependency_errors_and_sets
            [of "XMLObject ''Dependency'' [] [XMLObject ''Dependee'' [] []]" exampleConverter] c
    by simp
  ultimately show ?thesis using a c by simp
qed

text \<open>
  Claim C6 as it is written (every fragment with no child bearing the dependent tag
  raises \<^verbatim>\<open>MissingDependentsException\<close>) fails on a fragment with no children at
  all: the test for dependees comes first, and \<^verbatim>\<open>MissingDependeesException\<close> is
  raised.
\<close>

theorem fromXMLtoDependency_empty_fragment:
  "\<not> hasChildTagged (XMLObject ''Dependency'' [] []) (getDependentTagName exampleConverter)
   \<and> fromXMLtoDependency exampleConverter (XMLObject ''Dependency'' [] [])
        = Inl MissingDependeesException
   \<and> fromXMLtoDependency exampleConverter (XMLObject ''Dependency'' [] [])
        \<noteq> Inl MissingDependentsException"
  by (simp add: fromXMLtoDependency_def findFirstChild_def hasChildTagged_def
      exampleConverter_def)

end
